theory Spec2Isabelle
  imports Main
begin

text \<open>
  A model of \<^verbatim>\<open>server.js\<close>, the gateway that answers \<^verbatim>\<open>GET /api/weather/:location\<close> from the
  36-hour forecast of the CWA open-data service. The handler \<^verbatim>\<open>getWeatherByLocation\<close> is
  translated branch by branch: every \<^verbatim>\<open>return\<close>, every exception and the \<^verbatim>\<open>catch\<close> block are
  branches of the model, and the responses written and the outbound calls made are recorded
  in a value that each step returns updated. Express and axios are the boundary: which
  handler a request reaches and how the upstream answers are inputs of the model.
\<close>

section \<open>Strings\<close>

text \<open>
  JavaScript strings are modelled as \<^typ>\<open>string\<close>. ASCII characters stand for themselves and
  every other character of a source literal is written as its UTF-8 bytes, so that equality
  and concatenation of the literals below agree with the source's. The constants are the
  string literals of \<^verbatim>\<open>server.js\<close>, in the order in which they occur there.
\<close>

definition kaohsiung_name :: string where
  "kaohsiung_name = [CHR 0xE9, CHR 0xAB, CHR 0x98, CHR 0xE9, CHR 0x9B, CHR 0x84, CHR 0xE5,
     CHR 0xB8, CHR 0x82]"

definition taipei_name :: string where
  "taipei_name = [CHR 0xE8, CHR 0x87, CHR 0xBA, CHR 0xE5, CHR 0x8C, CHR 0x97, CHR 0xE5,
     CHR 0xB8, CHR 0x82]"

definition taichung_name :: string where
  "taichung_name = [CHR 0xE8, CHR 0x87, CHR 0xBA, CHR 0xE4, CHR 0xB8, CHR 0xAD, CHR 0xE5,
     CHR 0xB8, CHR 0x82]"

definition miaoli_name :: string where
  "miaoli_name = [CHR 0xE8, CHR 0x8B, CHR 0x97, CHR 0xE6, CHR 0xA0, CHR 0x97, CHR 0xE7,
     CHR 0xB8, CHR 0xA3]"

definition err_invalid_code :: string where
  "err_invalid_code = [CHR 0xE8, CHR 0xBC, CHR 0xB8, CHR 0xE5, CHR 0x85, CHR 0xA5, CHR 0xE5,
     CHR 0x9C, CHR 0xB0, CHR 0xE5, CHR 0x8D, CHR 0x80, CHR 0xE4, CHR 0xBB, CHR 0xA3, CHR 0xE7,
     CHR 0xA2, CHR 0xBC, CHR 0xE7, CHR 0x84, CHR 0xA1, CHR 0xE6, CHR 0x95, CHR 0x88]"

text \<open>The two halves of the template literal of line 43, around \<^verbatim>\<open>${locationCode}\<close>.\<close>

definition msg_code_prefix :: string where
  "msg_code_prefix = [CHR 0xE5, CHR 0x9C, CHR 0xB0, CHR 0xE5, CHR 0x8D, CHR 0x80, CHR 0xE4,
     CHR 0xBB, CHR 0xA3, CHR 0xE7, CHR 0xA2, CHR 0xBC] @ '' '' @ [CHR 0x27]"

definition msg_code_suffix :: string where
  "msg_code_suffix = [CHR 0x27] @ '' '' @ [CHR 0xE5, CHR 0xB0, CHR 0x9A, CHR 0xE6, CHR 0x9C,
     CHR 0xAA, CHR 0xE5, CHR 0xAE, CHR 0x9A, CHR 0xE7, CHR 0xBE, CHR 0xA9, CHR 0xE6, CHR 0x88,
     CHR 0x96, CHR 0xE4, CHR 0xB8, CHR 0x8D, CHR 0xE6, CHR 0x94, CHR 0xAF, CHR 0xE6, CHR 0x8F,
     CHR 0xB4, CHR 0xE3, CHR 0x80, CHR 0x82]"

definition err_config :: string where
  "err_config = [CHR 0xE4, CHR 0xBC, CHR 0xBA, CHR 0xE6, CHR 0x9C, CHR 0x8D, CHR 0xE5,
     CHR 0x99, CHR 0xA8, CHR 0xE8, CHR 0xA8, CHR 0xAD, CHR 0xE5, CHR 0xAE, CHR 0x9A, CHR 0xE9,
     CHR 0x8C, CHR 0xAF, CHR 0xE8, CHR 0xAA, CHR 0xA4]"

definition msg_config :: string where
  "msg_config = [CHR 0xE8, CHR 0xAB, CHR 0x8B, CHR 0xE5, CHR 0x9C,
     CHR 0xA8] @ '' .env '' @ [CHR 0xE6, CHR 0xAA, CHR 0x94, CHR 0xE6, CHR 0xA1, CHR 0x88,
     CHR 0xE4, CHR 0xB8, CHR 0xAD, CHR 0xE8, CHR 0xA8, CHR 0xAD, CHR 0xE5, CHR 0xAE,
     CHR 0x9A] @ '' CWA_API_KEY''"

definition err_no_data :: string where
  "err_no_data = [CHR 0xE6, CHR 0x9F, CHR 0xA5, CHR 0xE7, CHR 0x84, CHR 0xA1, CHR 0xE8,
     CHR 0xB3, CHR 0x87, CHR 0xE6, CHR 0x96, CHR 0x99]"

text \<open>The two halves of the template literal of line 74, around \<^verbatim>\<open>${locationName}\<close>.\<close>

definition msg_no_data_prefix :: string where
  "msg_no_data_prefix = [CHR 0xE7, CHR 0x84, CHR 0xA1, CHR 0xE6, CHR 0xB3, CHR 0x95, CHR 0xE5,
     CHR 0x8F, CHR 0x96, CHR 0xE5, CHR 0xBE, CHR 0x97] @ '' ''"

definition msg_no_data_suffix :: string where
  "msg_no_data_suffix = '' '' @ [CHR 0xE7, CHR 0x9A, CHR 0x84, CHR 0xE5, CHR 0xA4, CHR 0xA9,
     CHR 0xE6, CHR 0xB0, CHR 0xA3, CHR 0xE8, CHR 0xB3, CHR 0x87, CHR 0xE6, CHR 0x96, CHR 0x99]"

definition degrees_C :: string where
  "degrees_C = [CHR 0xC2, CHR 0xB0] @ ''C''"

definition err_cwa :: string where
  "err_cwa = ''CWA API '' @ [CHR 0xE9, CHR 0x8C, CHR 0xAF, CHR 0xE8, CHR 0xAA, CHR 0xA4]"

definition msg_cwa_default :: string where
  "msg_cwa_default = [CHR 0xE7, CHR 0x84, CHR 0xA1, CHR 0xE6, CHR 0xB3, CHR 0x95, CHR 0xE5,
     CHR 0x8F, CHR 0x96, CHR 0xE5, CHR 0xBE, CHR 0x97, CHR 0xE5, CHR 0xA4, CHR 0xA9, CHR 0xE6,
     CHR 0xB0, CHR 0xA3, CHR 0xE8, CHR 0xB3, CHR 0x87, CHR 0xE6, CHR 0x96, CHR 0x99]"

definition err_server :: string where
  "err_server = [CHR 0xE4, CHR 0xBC, CHR 0xBA, CHR 0xE6, CHR 0x9C, CHR 0x8D, CHR 0xE5,
     CHR 0x99, CHR 0xA8, CHR 0xE9, CHR 0x8C, CHR 0xAF, CHR 0xE8, CHR 0xAA, CHR 0xA4]"

definition msg_server :: string where
  "msg_server = [CHR 0xE7, CHR 0x84, CHR 0xA1, CHR 0xE6, CHR 0xB3, CHR 0x95, CHR 0xE5,
     CHR 0x8F, CHR 0x96, CHR 0xE5, CHR 0xBE, CHR 0x97, CHR 0xE5, CHR 0xA4, CHR 0xA9, CHR 0xE6,
     CHR 0xB0, CHR 0xA3, CHR 0xE8, CHR 0xB3, CHR 0x87, CHR 0xE6, CHR 0x96, CHR 0x99, CHR 0xEF,
     CHR 0xBC, CHR 0x8C, CHR 0xE8, CHR 0xAB, CHR 0x8B, CHR 0xE7, CHR 0xA8, CHR 0x8D, CHR 0xE5,
     CHR 0xBE, CHR 0x8C, CHR 0xE5, CHR 0x86, CHR 0x8D, CHR 0xE8, CHR 0xA9, CHR 0xA6]"



section \<open>JSON values and JavaScript errors\<close>

text \<open>
  Response bodies and the body of an upstream error response are JSON values. An object
  keeps its fields in the order of the object literal. Numbers are integers here: the code
  only tests a number for being zero and passes it on.
\<close>

datatype json =
    JNull
  | JBool bool
  | JNum int
  | JStr string
  | JArr "json list"
  | JObj "(string \<times> json) list"

text \<open>\<^verbatim>\<open>error.response\<close> of a rejected axios call: the upstream's status and parsed body.\<close>

record error_response =
  status :: nat
  data :: json

text \<open>
  The errors the handler's \<^verbatim>\<open>catch\<close> can see: a \<^verbatim>\<open>TypeError\<close> raised by reading a property
  of \<^verbatim>\<open>undefined\<close> or \<^verbatim>\<open>null\<close>, and the rejection of \<^verbatim>\<open>axios.get\<close>, whose \<^verbatim>\<open>response\<close>
  is present when the upstream answered with an HTTP error and absent otherwise.
\<close>

datatype js_error =
    TypeError
  | AxiosError "error_response option"

text \<open>JavaScript truthiness of a JSON value, as \<^verbatim>\<open>||\<close> tests it.\<close>

fun truthy :: "json \<Rightarrow> bool" where
  "truthy JNull = False"
| "truthy (JBool b) = b"
| "truthy (JNum n) = (n \<noteq> 0)"
| "truthy (JStr s) = (s \<noteq> [])"
| "truthy (JArr xs) = True"
| "truthy (JObj kvs) = True"

text \<open>
  \<^verbatim>\<open>data.message\<close> on a parsed body: reading a property of \<^verbatim>\<open>null\<close> raises; an object gives
  its own field (the last one, were the key repeated in the JSON text) or \<^verbatim>\<open>undefined\<close>,
  here \<open>None\<close>; strings, numbers, booleans and arrays have no property of that name.
\<close>

fun data_message :: "json \<Rightarrow> js_error + json option" where
  "data_message JNull = Inl TypeError"
| "data_message (JObj kvs) = Inr (map_of (rev kvs) ''message'')"
| "data_message (JBool b) = Inr None"
| "data_message (JNum n) = Inr None"
| "data_message (JStr s) = Inr None"
| "data_message (JArr xs) = Inr None"

text \<open>\<^verbatim>\<open>v || d\<close> where \<open>v\<close> may be \<^verbatim>\<open>undefined\<close>.\<close>

definition or_else :: "json option \<Rightarrow> json \<Rightarrow> json" where
  "or_else v d = (case v of None \<Rightarrow> d | Some x \<Rightarrow> if truthy x then x else d)"

definition has_field :: "string \<Rightarrow> json \<Rightarrow> bool" where
  "has_field k b = (case b of JObj kvs \<Rightarrow> k \<in> set (map fst kvs) | _ \<Rightarrow> False)"

section \<open>The upstream payload\<close>

text \<open>
  The body of a successful upstream response has the shape the code reads:
  \<^verbatim>\<open>records.datasetDescription\<close> and \<^verbatim>\<open>records.location\<close>, a list of locations, each with
  its \<^verbatim>\<open>weatherElement\<close> list, each element with its \<^verbatim>\<open>time\<close> list. The lists may have any
  length, and \<^verbatim>\<open>parameter\<close> may be absent, which is what the code tests for.
\<close>

record param =
  parameterName :: string

record time_entry =
  startTime :: string
  endTime :: string
  parameter :: "param option"

record weather_element =
  elementName :: string
  time :: "time_entry list"

record location_entry =
  locationName :: string
  weatherElement :: "weather_element list"

record payload =
  datasetDescription :: string
  location :: "location_entry list"

section \<open>The forecast of lines 79 to 126\<close>

record forecast =
  startTime :: string
  endTime :: string
  weather :: string
  rain :: string
  minTemp :: string
  maxTemp :: string
  comfort :: string
  windSpeed :: string

record weatherData =
  city :: string
  updateTime :: string
  forecasts :: "forecast list"

text \<open>
  The callback of \<^verbatim>\<open>weatherElements.forEach\<close> (lines 100 to 123) at slot \<open>i\<close>.
  \<^verbatim>\<open>element.time[i]\<close> is \<^verbatim>\<open>undefined\<close> when \<open>i\<close> is out of range, and reading \<^verbatim>\<open>.parameter\<close>
  of it raises; so does \<^verbatim>\<open>value.parameterName\<close> when \<^verbatim>\<open>value\<close> is absent.
\<close>

definition apply_element :: "nat \<Rightarrow> weather_element \<Rightarrow> forecast \<Rightarrow> js_error + forecast" where
  "apply_element i element forecast =
     (if i < length (time element) then
        (let val = parameter (time element ! i) in
         if elementName element = ''Wx'' then
           (case val of None \<Rightarrow> Inl TypeError
            | Some v \<Rightarrow> Inr (forecast\<lparr>weather := parameterName v\<rparr>))
         else if elementName element = ''PoP'' then
           Inr (forecast\<lparr>rain := (case val of Some v \<Rightarrow> parameterName v | None \<Rightarrow> ''0'') @ ''%''\<rparr>)
         else if elementName element = ''MinT'' then
           Inr (forecast\<lparr>minTemp := (case val of Some v \<Rightarrow> parameterName v | None \<Rightarrow> ''-'') @ degrees_C\<rparr>)
         else if elementName element = ''MaxT'' then
           Inr (forecast\<lparr>maxTemp := (case val of Some v \<Rightarrow> parameterName v | None \<Rightarrow> ''-'') @ degrees_C\<rparr>)
         else if elementName element = ''CI'' then
           (case val of None \<Rightarrow> Inl TypeError
            | Some v \<Rightarrow> Inr (forecast\<lparr>comfort := parameterName v\<rparr>))
         else if elementName element = ''WS'' then
           (case val of None \<Rightarrow> Inl TypeError
            | Some v \<Rightarrow> Inr (forecast\<lparr>windSpeed := parameterName v\<rparr>))
         else Inr forecast)
      else Inl TypeError)"

text \<open>\<^verbatim>\<open>forEach\<close> visits the elements in array order; an exception ends it.\<close>

fun forEach :: "nat \<Rightarrow> weather_element list \<Rightarrow> forecast \<Rightarrow> js_error + forecast" where
  "forEach i [] forecast = Inr forecast"
| "forEach i (element # rest) forecast =
     (case apply_element i element forecast of
        Inl err \<Rightarrow> Inl err
      | Inr forecast' \<Rightarrow> forEach i rest forecast')"

text \<open>The object literal of lines 89 to 98, read from element 0's \<open>i\<close>-th time entry.\<close>

definition new_forecast :: "weather_element \<Rightarrow> nat \<Rightarrow> js_error + forecast" where
  "new_forecast element0 i =
     (if i < length (time element0) then
        Inr \<lparr>startTime = time_entry.startTime (time element0 ! i),
             endTime = time_entry.endTime (time element0 ! i),
             weather = [], rain = [], minTemp = [], maxTemp = [],
             comfort = [], windSpeed = []\<rparr>
      else Inl TypeError)"

text \<open>One round of the \<^verbatim>\<open>for\<close> loop: lines 89 to 123.\<close>

definition build_slot :: "weather_element list \<Rightarrow> weather_element \<Rightarrow> nat \<Rightarrow> js_error + forecast" where
  "build_slot weatherElements element0 i =
     (case new_forecast element0 i of
        Inl err \<Rightarrow> Inl err
      | Inr forecast \<Rightarrow> forEach i weatherElements forecast)"

text \<open>
  The loop \<^verbatim>\<open>for (let i = 0; i < timeCount; i++)\<close> of line 88, pushing each finished
  forecast onto the end of \<^verbatim>\<open>weatherData.forecasts\<close>.
\<close>

function for_loop ::
  "weather_element list \<Rightarrow> weather_element \<Rightarrow> nat \<Rightarrow> nat \<Rightarrow> forecast list \<Rightarrow> js_error + forecast list"
where
  "for_loop weatherElements element0 timeCount i acc =
     (if i < timeCount then
        (case build_slot weatherElements element0 i of
           Inl err \<Rightarrow> Inl err
         | Inr forecast \<Rightarrow> for_loop weatherElements element0 timeCount (i + 1) (acc @ [forecast]))
      else Inr acc)"
  by pat_completeness auto
termination
  by (relation "measure (\<lambda>(es, e0, n, i, acc). n - i)") auto

declare for_loop.simps [simp del]

text \<open>
  Lines 79 to 126. \<^verbatim>\<open>weatherElements[0]\<close> is \<^verbatim>\<open>undefined\<close> for an empty list, and reading
  \<^verbatim>\<open>.time\<close> of it raises.
\<close>

definition normalize :: "payload \<Rightarrow> location_entry \<Rightarrow> js_error + weatherData" where
  "normalize response_data locationData =
     (let weatherElements = weatherElement locationData in
      case weatherElements of
        [] \<Rightarrow> Inl TypeError
      | element0 # _ \<Rightarrow>
          (case for_loop weatherElements element0 (length (time element0)) 0 [] of
             Inl err \<Rightarrow> Inl err
           | Inr fs \<Rightarrow>
               Inr \<lparr>city = locationName locationData,
                    updateTime = datasetDescription response_data,
                    forecasts = fs\<rparr>))"

section \<open>The location table\<close>

text \<open>
  \<^verbatim>\<open>LOCATION_MAP\<close> (lines 15 to 21) is an object literal: its own properties in insertion
  order, which is the order of \<^verbatim>\<open>Object.keys\<close>.
\<close>

definition LOCATION_MAP :: "(string \<times> string) list" where
  "LOCATION_MAP =
     [(''kaohsiung'', kaohsiung_name),
      (''taipei'', taipei_name),
      (''taichung'', taichung_name),
      (''miaoli'', miaoli_name)]"

definition Object_keys :: "(string \<times> string) list \<Rightarrow> string list" where
  "Object_keys obj = map fst obj"

text \<open>
  An object literal inherits from \<^verbatim>\<open>Object.prototype\<close>, and \<^verbatim>\<open>obj[key]\<close> follows the
  prototype chain when \<open>key\<close> is not an own property. These are the property names of
  \<^verbatim>\<open>Object.prototype\<close> (ECMAScript, with Annex B); read through \<^verbatim>\<open>LOCATION_MAP\<close> each gives
  a function, and \<^verbatim>\<open>__proto__\<close> gives \<^verbatim>\<open>Object.prototype\<close> itself.
\<close>

definition Object_prototype_names :: "string list" where
  "Object_prototype_names =
     [''constructor'', ''__defineGetter__'', ''__defineSetter__'', ''hasOwnProperty'',
      ''__lookupGetter__'', ''__lookupSetter__'', ''isPrototypeOf'', ''propertyIsEnumerable'',
      ''toString'', ''valueOf'', ''__proto__'', ''toLocaleString'']"

text \<open>
  What \<^verbatim>\<open>LOCATION_MAP[locationCode]\<close> evaluates to: \<^verbatim>\<open>undefined\<close>, a string of the table, or
  the member of \<^verbatim>\<open>Object.prototype\<close> of that name.
\<close>

datatype looked_up =
    Undefined
  | Str string
  | Inherited string

definition lookup :: "(string \<times> string) list \<Rightarrow> string \<Rightarrow> looked_up" where
  "lookup obj key =
     (case map_of obj key of
        Some v \<Rightarrow> Str v
      | None \<Rightarrow> if key \<in> set Object_prototype_names then Inherited key else Undefined)"

text \<open>Truthiness, as \<^verbatim>\<open>!locationName\<close> tests it: functions and objects are truthy.\<close>

fun truthy_value :: "looked_up \<Rightarrow> bool" where
  "truthy_value Undefined = False"
| "truthy_value (Str s) = (s \<noteq> [])"
| "truthy_value (Inherited k) = True"

section \<open>The environment and the effects of a handler\<close>

text \<open>The query parameters of the one outbound call (lines 58 to 66); the URL is fixed.\<close>

record outbound =
  Authorization :: string
  locationName_param :: looked_up

datatype axios_result =
    Resolved payload
  | Rejected js_error

text \<open>
  What the handler reads from outside: \<^verbatim>\<open>process.env.CWA_API_KEY\<close>, absent or a string;
  how the upstream answers a call (axios is not part of the repository, its outcome is taken
  as given); the engine's \<^verbatim>\<open>String(v)\<close> of a member of \<^verbatim>\<open>Object.prototype\<close>, which a
  template literal applies; and the clock's \<^verbatim>\<open>new Date().toISOString()\<close>.
\<close>

record env =
  CWA_API_KEY :: "string option"
  axios_get :: "outbound \<Rightarrow> axios_result"
  String_of_inherited :: "string \<Rightarrow> string"
  now_ISO :: string

record response =
  statusCode :: nat
  body :: json

text \<open>
  The effects of handling one request: the responses written to \<^verbatim>\<open>res\<close>, the outbound calls
  made, and the error with which an \<^verbatim>\<open>async\<close> handler's promise rejected, if it did.
  What the framework does with a rejected promise is outside the source.
\<close>

record effects =
  sent :: "response list"
  calls :: "outbound list"
  rejected :: "js_error option"

definition no_effects :: effects where
  "no_effects = \<lparr>sent = [], calls = [], rejected = None\<rparr>"

text \<open>\<^verbatim>\<open>res.status(code).json(b)\<close>; \<^verbatim>\<open>res.json(b)\<close> alone answers with status 200.\<close>

definition res_status_json :: "nat \<Rightarrow> json \<Rightarrow> effects \<Rightarrow> effects" where
  "res_status_json code b fx = fx\<lparr>sent := sent fx @ [\<lparr>statusCode = code, body = b\<rparr>]\<rparr>"

definition res_json :: "json \<Rightarrow> effects \<Rightarrow> effects" where
  "res_json b fx = res_status_json 200 b fx"

section \<open>The weather route\<close>

text \<open>The value of \<^verbatim>\<open>${locationName}\<close> in the template literal of line 74.\<close>

definition template_of :: "env \<Rightarrow> looked_up \<Rightarrow> string" where
  "template_of e v =
     (case v of
        Str s \<Rightarrow> s
      | Inherited k \<Rightarrow> String_of_inherited e k
      | Undefined \<Rightarrow> ''undefined'')"

definition forecast_json :: "forecast \<Rightarrow> json" where
  "forecast_json f =
     JObj [(''startTime'', JStr (forecast.startTime f)),
           (''endTime'', JStr (forecast.endTime f)),
           (''weather'', JStr (weather f)),
           (''rain'', JStr (rain f)),
           (''minTemp'', JStr (minTemp f)),
           (''maxTemp'', JStr (maxTemp f)),
           (''comfort'', JStr (comfort f)),
           (''windSpeed'', JStr (windSpeed f))]"

definition weatherData_json :: "weatherData \<Rightarrow> json" where
  "weatherData_json w =
     JObj [(''city'', JStr (city w)),
           (''updateTime'', JStr (updateTime w)),
           (''forecasts'', JArr (map forecast_json (forecasts w)))]"

text \<open>
  The \<^verbatim>\<open>catch\<close> block, lines 132 to 149 (the \<^verbatim>\<open>console.error\<close> of line 133 writes to the log
  only and is left out). Building the body of line 137 reads \<^verbatim>\<open>error.response.data.message\<close>
  before anything is sent; when that raises, the exception leaves the handler.
\<close>

definition catch_block :: "js_error \<Rightarrow> effects \<Rightarrow> effects" where
  "catch_block error fx =
     (case error of
        AxiosError (Some r) \<Rightarrow>
          (case data_message (data r) of
             Inl err \<Rightarrow> fx\<lparr>rejected := Some err\<rparr>
           | Inr m \<Rightarrow>
               res_status_json (status r)
                 (JObj [(''error'', JStr err_cwa),
                        (''message'', or_else m (JStr msg_cwa_default)),
                        (''details'', data r)]) fx)
      | _ \<Rightarrow>
          res_status_json 500
            (JObj [(''error'', JStr err_server), (''message'', JStr msg_server)]) fx)"

text \<open>\<^verbatim>\<open>getWeatherByLocation\<close>, lines 33 to 150, with \<^verbatim>\<open>req.params.location\<close> as argument.\<close>

definition getWeatherByLocation :: "env \<Rightarrow> string \<Rightarrow> effects \<Rightarrow> effects" where
  "getWeatherByLocation e locationCode fx =
     (let locationName = lookup LOCATION_MAP locationCode in
      if \<not> truthy_value locationName then
        res_status_json 400
          (JObj [(''error'', JStr err_invalid_code),
                 (''message'', JStr (msg_code_prefix @ locationCode @ msg_code_suffix)),
                 (''supported_locations'', JArr (map JStr (Object_keys LOCATION_MAP)))]) fx
      else
        (case CWA_API_KEY e of
           None \<Rightarrow>
             res_status_json 500
               (JObj [(''error'', JStr err_config), (''message'', JStr msg_config)]) fx
         | Some key \<Rightarrow>
             if key = [] then
               res_status_json 500
                 (JObj [(''error'', JStr err_config), (''message'', JStr msg_config)]) fx
             else
               (let request = \<lparr>Authorization = key, locationName_param = locationName\<rparr>;
                    fx1 = fx\<lparr>calls := calls fx @ [request]\<rparr>
                in case axios_get e request of
                     Rejected error \<Rightarrow> catch_block error fx1
                   | Resolved response_data \<Rightarrow>
                       (case location response_data of
                          [] \<Rightarrow>
                            res_status_json 404
                              (JObj [(''error'', JStr err_no_data),
                                     (''message'', JStr (msg_no_data_prefix
                                        @ template_of e locationName @ msg_no_data_suffix))]) fx1
                        | locationData # _ \<Rightarrow>
                            (case normalize response_data locationData of
                               Inl error \<Rightarrow> catch_block error fx1
                             | Inr weatherData \<Rightarrow>
                                 res_json
                                   (JObj [(''success'', JBool True),
                                          (''data'', weatherData_json weatherData)]) fx1)))))"

section \<open>The other routes and the final handlers\<close>







section \<open>Vocabulary of the properties\<close>

text \<open>
  The tags whose branch reads \<^verbatim>\<open>value.parameterName\<close> without a test, and the condition under
  which the callback does not raise for an element at slot \<open>i\<close>.
\<close>

definition needs_parameter :: "string \<Rightarrow> bool" where
  "needs_parameter tag = (tag = ''Wx'' \<or> tag = ''CI'' \<or> tag = ''WS'')"

definition readable :: "nat \<Rightarrow> weather_element \<Rightarrow> bool" where
  "readable i element =
     (i < length (time element) \<and>
      (if needs_parameter (elementName element) then parameter (time element ! i) \<noteq> None else True))"

definition aligned :: "weather_element list \<Rightarrow> bool" where
  "aligned weatherElements =
     (case weatherElements of
        [] \<Rightarrow> False
      | element0 # _ \<Rightarrow>
          list_all (\<lambda>i. list_all (readable i) weatherElements) [0..<length (time element0)])"




definition recognised :: "string \<Rightarrow> bool" where
  "recognised tag = (tag \<in> set [''Wx'', ''PoP'', ''MinT'', ''MaxT'', ''CI'', ''WS''])"



section \<open>Sample inputs\<close>

definition entry :: "string \<Rightarrow> string \<Rightarrow> string option \<Rightarrow> time_entry" where
  "entry s t v =
     \<lparr>time_entry.startTime = s, endTime = t,
      parameter = (case v of None \<Rightarrow> None | Some n \<Rightarrow> Some \<lparr>parameterName = n\<rparr>)\<rparr>"

text \<open>Two slots; \<open>PoP\<close>, \<open>MinT\<close> and \<open>MaxT\<close> lack a parameter in one of them; \<open>Wx\<close> occurs twice.\<close>

definition sample_elements :: "weather_element list" where
  "sample_elements =
     [\<lparr>elementName = ''Wx'',
       time = [entry ''06:00'' ''18:00'' (Some ''Cloudy''), entry ''18:00'' ''06:00'' (Some ''Rain'')]\<rparr>,
      \<lparr>elementName = ''PoP'',
       time = [entry ''06:00'' ''18:00'' (Some ''20''), entry ''18:00'' ''06:00'' None]\<rparr>,
      \<lparr>elementName = ''MinT'',
       time = [entry ''06:00'' ''18:00'' None, entry ''18:00'' ''06:00'' (Some ''18'')]\<rparr>,
      \<lparr>elementName = ''CI'',
       time = [entry ''06:00'' ''18:00'' (Some ''Warm''), entry ''18:00'' ''06:00'' (Some ''Cool'')]\<rparr>,
      \<lparr>elementName = ''MaxT'',
       time = [entry ''06:00'' ''18:00'' (Some ''25''), entry ''18:00'' ''06:00'' None]\<rparr>,
      \<lparr>elementName = ''Wx'',
       time = [entry ''06:00'' ''18:00'' (Some ''Sunny''), entry ''18:00'' ''06:00'' (Some ''Fog'')]\<rparr>]"

definition sample_location :: location_entry where
  "sample_location = \<lparr>locationName = taipei_name, weatherElement = sample_elements\<rparr>"

definition sample_payload :: payload where
  "sample_payload = \<lparr>datasetDescription = ''36h'', location = [sample_location]\<rparr>"

text \<open>The second element has one time entry where element 0 has two.\<close>

definition short_location :: location_entry where
  "short_location =
     \<lparr>locationName = taipei_name,
      weatherElement =
        [\<lparr>elementName = ''Wx'',
          time = [entry ''06:00'' ''18:00'' (Some ''Cloudy''), entry ''18:00'' ''06:00'' (Some ''Rain'')]\<rparr>,
         \<lparr>elementName = ''PoP'', time = [entry ''06:00'' ''18:00'' (Some ''20'')]\<rparr>]\<rparr>"

definition short_payload :: payload where
  "short_payload = \<lparr>datasetDescription = ''36h'', location = [short_location]\<rparr>"

text \<open>The only element is \<open>Wx\<close>, with one time entry that has no parameter.\<close>

definition bare_location :: location_entry where
  "bare_location =
     \<lparr>locationName = taipei_name,
      weatherElement = [\<lparr>elementName = ''Wx'', time = [entry ''06:00'' ''18:00'' None]\<rparr>]\<rparr>"

definition bare_payload :: payload where
  "bare_payload = \<lparr>datasetDescription = ''36h'', location = [bare_location]\<rparr>"

text \<open>\<open>CI\<close> lacks its parameter in the second slot.\<close>

definition gap_location :: location_entry where
  "gap_location =
     \<lparr>locationName = taipei_name,
      weatherElement =
        [\<lparr>elementName = ''PoP'',
          time = [entry ''06:00'' ''18:00'' (Some ''20''), entry ''18:00'' ''06:00'' (Some ''30'')]\<rparr>,
         \<lparr>elementName = ''CI'',
          time = [entry ''06:00'' ''18:00'' (Some ''Warm''), entry ''18:00'' ''06:00'' None]\<rparr>]\<rparr>"

definition gap_payload :: payload where
  "gap_payload = \<lparr>datasetDescription = ''36h'', location = [gap_location]\<rparr>"

definition empty_payload :: payload where
  "empty_payload = \<lparr>datasetDescription = ''36h'', location = []\<rparr>"


definition unavailable_null :: error_response where
  "unavailable_null = \<lparr>status = 503, data = JNull\<rparr>"

text \<open>An environment whose upstream gives the same answer to every call.\<close>

definition always :: "axios_result \<Rightarrow> outbound \<Rightarrow> axios_result" where
  "always r request = r"

definition String_of_V8 :: "string \<Rightarrow> string" where
  "String_of_V8 k =
     (if k = ''__proto__'' then ''[object Object]''
      else ''function '' @ (if k = ''constructor'' then ''Object'' else k) @ ''() { [native code] }'')"

definition env_with :: "string option \<Rightarrow> axios_result \<Rightarrow> env" where
  "env_with k r =
     \<lparr>CWA_API_KEY = k, axios_get = always r, String_of_inherited = String_of_V8,
      now_ISO = ''2024-01-01T00:00:00.000Z''\<rparr>"

section \<open>The callback, element by element\<close>

lemma apply_element_Wx:
  "elementName e = ''Wx'' \<Longrightarrow> apply_element i e f =
     (if i < length (time e) then
        (case parameter (time e ! i) of None \<Rightarrow> Inl TypeError
         | Some v \<Rightarrow> Inr (f\<lparr>weather := parameterName v\<rparr>))
      else Inl TypeError)"
  by (simp add: apply_element_def)

lemma apply_element_PoP:
  "elementName e = ''PoP'' \<Longrightarrow> apply_element i e f =
     (if i < length (time e) then
        Inr (f\<lparr>rain := (case parameter (time e ! i) of Some v \<Rightarrow> parameterName v | None \<Rightarrow> ''0'') @ ''%''\<rparr>)
      else Inl TypeError)"
  by (simp add: apply_element_def)

lemma apply_element_MinT:
  "elementName e = ''MinT'' \<Longrightarrow> apply_element i e f =
     (if i < length (time e) then
        Inr (f\<lparr>minTemp := (case parameter (time e ! i) of Some v \<Rightarrow> parameterName v | None \<Rightarrow> ''-'') @ degrees_C\<rparr>)
      else Inl TypeError)"
  by (simp add: apply_element_def)

lemma apply_element_MaxT:
  "elementName e = ''MaxT'' \<Longrightarrow> apply_element i e f =
     (if i < length (time e) then
        Inr (f\<lparr>maxTemp := (case parameter (time e ! i) of Some v \<Rightarrow> parameterName v | None \<Rightarrow> ''-'') @ degrees_C\<rparr>)
      else Inl TypeError)"
  by (simp add: apply_element_def)

lemma apply_element_CI:
  "elementName e = ''CI'' \<Longrightarrow> apply_element i e f =
     (if i < length (time e) then
        (case parameter (time e ! i) of None \<Rightarrow> Inl TypeError
         | Some v \<Rightarrow> Inr (f\<lparr>comfort := parameterName v\<rparr>))
      else Inl TypeError)"
  by (simp add: apply_element_def)

lemma apply_element_WS:
  "elementName e = ''WS'' \<Longrightarrow> apply_element i e f =
     (if i < length (time e) then
        (case parameter (time e ! i) of None \<Rightarrow> Inl TypeError
         | Some v \<Rightarrow> Inr (f\<lparr>windSpeed := parameterName v\<rparr>))
      else Inl TypeError)"
  by (simp add: apply_element_def)

lemma apply_element_other:
  "\<not> recognised (elementName e) \<Longrightarrow> apply_element i e f =
     (if i < length (time e) then Inr f else Inl TypeError)"
  by (simp add: apply_element_def recognised_def)

lemma tag_cases:
  obtains (Wx) "tag = ''Wx''" | (PoP) "tag = ''PoP''" | (MinT) "tag = ''MinT''"
    | (MaxT) "tag = ''MaxT''" | (CI) "tag = ''CI''" | (WS) "tag = ''WS''"
    | (other) "\<not> recognised tag"
  unfolding recognised_def by auto


lemmas apply_element_tag =
  apply_element_Wx apply_element_PoP apply_element_MinT apply_element_MaxT
  apply_element_CI apply_element_WS apply_element_other

lemma apply_element_error: "apply_element i e f = Inl err \<Longrightarrow> err = TypeError"
  by (cases "elementName e" rule: tag_cases)
     (simp_all add: apply_element_tag split: if_splits option.splits)

lemma apply_element_Inr_iff: "(\<exists>f'. apply_element i e f = Inr f') = readable i e"
  by (cases "elementName e" rule: tag_cases)
     (simp_all add: apply_element_tag readable_def needs_parameter_def recognised_def
        split: option.splits)

lemma apply_element_times:
  "apply_element i e f = Inr f' \<Longrightarrow>
     forecast.startTime f' = forecast.startTime f \<and> forecast.endTime f' = forecast.endTime f"
  by (cases "elementName e" rule: tag_cases)
     (auto simp: apply_element_tag split: if_splits option.splits)






section \<open>The \<^verbatim>\<open>forEach\<close> and the loop\<close>

lemma forEach_Cons_Inr:
  "forEach i (e # es) f = Inr f' \<Longrightarrow>
     \<exists>f1. apply_element i e f = Inr f1 \<and> forEach i es f1 = Inr f'"
  by (cases "apply_element i e f") simp_all

lemma forEach_error: "forEach i es f = Inl err \<Longrightarrow> err = TypeError"
proof (induction es arbitrary: f)
  case Nil
  then show ?case by simp
next
  case (Cons e es)
  show ?case
  proof (cases "apply_element i e f")
    case (Inl err')
    with Cons.prems have "apply_element i e f = Inl err" by simp
    then show ?thesis by (rule apply_element_error)
  next
    case (Inr f1)
    with Cons.prems have "forEach i es f1 = Inl err" by simp
    then show ?thesis by (rule Cons.IH)
  qed
qed

lemma forEach_Inr_iff: "(\<exists>f'. forEach i es f = Inr f') = list_all (readable i) es"
proof (induction es arbitrary: f)
  case Nil
  show ?case by simp
next
  case (Cons e es)
  show ?case
  proof (cases "apply_element i e f")
    case (Inl err)
    with apply_element_Inr_iff [of i e f] show ?thesis by simp
  next
    case (Inr f1)
    with apply_element_Inr_iff [of i e f] Cons [of f1] show ?thesis by simp
  qed
qed

lemma forEach_times:
  "forEach i es f = Inr f' \<Longrightarrow>
     forecast.startTime f' = forecast.startTime f \<and> forecast.endTime f' = forecast.endTime f"
proof (induction es arbitrary: f)
  case Nil
  then show ?case by simp
next
  case (Cons e es)
  from forEach_Cons_Inr [OF Cons.prems] obtain f1
    where a: "apply_element i e f = Inr f1" and b: "forEach i es f1 = Inr f'" by blast
  from apply_element_times [OF a] Cons.IH [OF b] show ?case by simp
qed





lemma build_slot_Inr:
  assumes "build_slot es e0 i = Inr f"
  shows "i < length (time e0) \<and> list_all (readable i) es
       \<and> forecast.startTime f = time_entry.startTime (time e0 ! i)
       \<and> forecast.endTime f = time_entry.endTime (time e0 ! i)"
proof -
  from assms have i: "i < length (time e0)"
    by (simp add: build_slot_def new_forecast_def split: if_splits)
  with assms obtain f0 where f0: "new_forecast e0 i = Inr f0" and fe: "forEach i es f0 = Inr f"
    by (simp add: build_slot_def new_forecast_def)
  from fe forEach_Inr_iff [of i es f0] have "list_all (readable i) es" by blast
  moreover from f0 i have "forecast.startTime f0 = time_entry.startTime (time e0 ! i)"
    and "forecast.endTime f0 = time_entry.endTime (time e0 ! i)"
    by (auto simp: new_forecast_def)
  ultimately show ?thesis using i forEach_times [OF fe] by simp
qed

lemma build_slot_total:
  assumes "i < length (time e0)" and "list_all (readable i) es"
  shows "\<exists>f. build_slot es e0 i = Inr f"
  using assms forEach_Inr_iff [of i es] by (simp add: build_slot_def new_forecast_def)

lemma build_slot_error: "build_slot es e0 i = Inl err \<Longrightarrow> err = TypeError"
  by (auto simp: build_slot_def new_forecast_def split: if_splits dest: forEach_error)

lemma for_loop_Inr:
  "for_loop es e0 n i acc = Inr fs \<Longrightarrow>
     \<exists>gs. fs = acc @ gs \<and> length gs = n - i
        \<and> (\<forall>k<n - i. build_slot es e0 (i + k) = Inr (gs ! k))"
proof (induction es e0 n i acc rule: for_loop.induct)
  case (1 es e0 n i acc)
  show ?case
  proof (cases "i < n")
    case False
    with "1.prems" show ?thesis by (simp add: for_loop.simps)
  next
    case True
    with "1.prems" obtain f where f: "build_slot es e0 i = Inr f"
      and rest: "for_loop es e0 n (i + 1) (acc @ [f]) = Inr fs"
      by (cases "build_slot es e0 i") (simp_all add: for_loop.simps [of es e0 n i])
    from "1.IH" [OF True f rest] obtain gs where gs: "fs = (acc @ [f]) @ gs"
      "length gs = n - (i + 1)" "\<forall>k<n - (i + 1). build_slot es e0 (i + 1 + k) = Inr (gs ! k)"
      by blast
    have "\<forall>k<n - i. build_slot es e0 (i + k) = Inr ((f # gs) ! k)"
    proof (intro allI impI)
      fix k assume k: "k < n - i"
      show "build_slot es e0 (i + k) = Inr ((f # gs) ! k)"
      proof (cases k)
        case 0
        with f show ?thesis by simp
      next
        case (Suc k')
        with k gs(3) show ?thesis by simp
      qed
    qed
    with gs(1,2) True show ?thesis by (intro exI [of _ "f # gs"]) simp
  qed
qed

lemma for_loop_error: "for_loop es e0 n i acc = Inl err \<Longrightarrow> err = TypeError"
proof (induction es e0 n i acc rule: for_loop.induct)
  case (1 es e0 n i acc)
  show ?case
  proof (cases "i < n")
    case False
    with "1.prems" show ?thesis by (simp add: for_loop.simps)
  next
    case True
    show ?thesis
    proof (cases "build_slot es e0 i")
      case (Inl err')
      with True "1.prems" have "build_slot es e0 i = Inl err"
        by (simp add: for_loop.simps [of es e0 n i])
      then show ?thesis by (rule build_slot_error)
    next
      case (Inr f)
      with True "1.prems" have "for_loop es e0 n (i + 1) (acc @ [f]) = Inl err"
        by (simp add: for_loop.simps [of es e0 n i])
      with "1.IH" [OF True Inr] show ?thesis by simp
    qed
  qed
qed

lemma for_loop_total:
  "\<forall>j. i \<le> j \<and> j < n \<longrightarrow> (\<exists>f. build_slot es e0 j = Inr f) \<Longrightarrow>
     \<exists>fs. for_loop es e0 n i acc = Inr fs"
proof (induction es e0 n i acc rule: for_loop.induct)
  case (1 es e0 n i acc)
  show ?case
  proof (cases "i < n")
    case False
    then show ?thesis by (simp add: for_loop.simps)
  next
    case True
    with "1.prems" obtain f where f: "build_slot es e0 i = Inr f" by auto
    from "1.prems" have "\<forall>j. i + 1 \<le> j \<and> j < n \<longrightarrow> (\<exists>f. build_slot es e0 j = Inr f)" by simp
    from "1.IH" [OF True f this] obtain fs
      where "for_loop es e0 n (i + 1) (acc @ [f]) = Inr fs" by blast
    with True f show ?thesis by (simp add: for_loop.simps [of es e0 n i])
  qed
qed

lemma for_loop_fails:
  assumes "i \<le> j" and "j < n" and "build_slot es e0 j = Inl err"
  shows "for_loop es e0 n i acc = Inl TypeError"
proof (cases "for_loop es e0 n i acc")
  case (Inl err')
  then show ?thesis using for_loop_error by blast
next
  case (Inr fs)
  from for_loop_Inr [OF Inr] obtain gs
    where "\<forall>k<n - i. build_slot es e0 (i + k) = Inr (gs ! k)" by blast
  moreover from assms(1,2) have "j - i < n - i" and "i + (j - i) = j" by simp_all
  ultimately have "build_slot es e0 j = Inr (gs ! (j - i))" by metis
  with assms(3) show ?thesis by simp
qed


section \<open>When the forecast is built and when it raises\<close>

lemma aligned_Cons:
  "aligned (e0 # rest) = (\<forall>i<length (time e0). \<forall>e\<in>set (e0 # rest). readable i e)"
  by (auto simp: aligned_def list_all_iff)

lemma normalize_Inr:
  assumes "normalize p loc = Inr w"
  shows "\<exists>e0 rest. weatherElement loc = e0 # rest
       \<and> city w = locationName loc \<and> updateTime w = datasetDescription p
       \<and> length (forecasts w) = length (time e0)
       \<and> (\<forall>i<length (time e0). build_slot (e0 # rest) e0 i = Inr (forecasts w ! i))"
proof (cases "weatherElement loc")
  case Nil
  with assms show ?thesis by (simp add: normalize_def)
next
  case (Cons e0 rest)
  with assms obtain fs where fs: "for_loop (e0 # rest) e0 (length (time e0)) 0 [] = Inr fs"
    and w: "w = \<lparr>city = locationName loc, updateTime = datasetDescription p, forecasts = fs\<rparr>"
    by (cases "for_loop (e0 # rest) e0 (length (time e0)) 0 []") (auto simp: normalize_def)
  from for_loop_Inr [OF fs] have "length fs = length (time e0)"
    and "\<forall>i<length (time e0). build_slot (e0 # rest) e0 i = Inr (fs ! i)" by simp_all
  with Cons w show ?thesis by simp
qed

lemma normalize_error: "normalize p loc = Inl err \<Longrightarrow> err = TypeError"
  by (cases "weatherElement loc")
     (auto simp: normalize_def split: sum.splits dest: for_loop_error)

lemma normalize_total:
  assumes "weatherElement loc = e0 # rest" and "aligned (e0 # rest)"
  shows "\<exists>w. normalize p loc = Inr w"
proof -
  have "\<exists>f. build_slot (e0 # rest) e0 j = Inr f" if "j < length (time e0)" for j
  proof -
    from assms(2) that have "list_all (readable j) (e0 # rest)"
      unfolding aligned_Cons list_all_iff by blast
    with that show ?thesis by (rule build_slot_total)
  qed
  then have "\<forall>j. 0 \<le> j \<and> j < length (time e0) \<longrightarrow>
      (\<exists>f. build_slot (e0 # rest) e0 j = Inr f)" by blast
  from for_loop_total [OF this] obtain fs
    where "for_loop (e0 # rest) e0 (length (time e0)) 0 [] = Inr fs" by blast
  with assms(1) show ?thesis by (simp add: normalize_def)
qed

lemma normalize_aligned:
  assumes "normalize p loc = Inr w"
  shows "aligned (weatherElement loc)"
proof -
  from normalize_Inr [OF assms] obtain e0 rest where es: "weatherElement loc = e0 # rest"
    and "\<forall>i<length (time e0). build_slot (e0 # rest) e0 i = Inr (forecasts w ! i)" by blast
  then have "\<forall>i<length (time e0). list_all (readable i) (e0 # rest)"
    using build_slot_Inr by blast
  then have "aligned (e0 # rest)" unfolding aligned_Cons list_all_iff by blast
  with es show ?thesis by simp
qed

lemma normalize_fails:
  assumes "weatherElement loc = e0 # rest" and "i < length (time e0)"
    and "e \<in> set (e0 # rest)" and "\<not> readable i e"
  shows "normalize p loc = Inl TypeError"
proof (cases "normalize p loc")
  case (Inl err)
  then show ?thesis using normalize_error by blast
next
  case (Inr w)
  from normalize_aligned [OF Inr] assms(1) have "aligned (e0 # rest)" by simp
  with assms(2,3,4) show ?thesis unfolding aligned_Cons by blast
qed

section \<open>The branches of the weather route\<close>

lemma lookup_supported:
  assumes "code \<in> set (Object_keys LOCATION_MAP)"
  shows "\<exists>name. lookup LOCATION_MAP code = Str name \<and> name \<noteq> [] \<and> (code, name) \<in> set LOCATION_MAP"
  using assms
  by (auto simp: Object_keys_def LOCATION_MAP_def lookup_def kaohsiung_name_def taipei_name_def
      taichung_name_def miaoli_name_def)

lemma lookup_Undefined_iff:
  "(lookup LOCATION_MAP code = Undefined) =
     (code \<notin> set (Object_keys LOCATION_MAP) \<and> code \<notin> set Object_prototype_names)"
  by (auto simp: lookup_def Object_keys_def LOCATION_MAP_def split: option.splits)

lemma truthy_lookup_iff:
  "truthy_value (lookup LOCATION_MAP code) = (lookup LOCATION_MAP code \<noteq> Undefined)"
proof (cases "lookup LOCATION_MAP code")
  case Undefined
  then show ?thesis by simp
next
  case (Str name)
  then have "map_of LOCATION_MAP code = Some name"
    by (simp add: lookup_def split: option.splits if_splits)
  then have "name \<noteq> []"
    by (auto simp: LOCATION_MAP_def kaohsiung_name_def taipei_name_def taichung_name_def
        miaoli_name_def split: if_splits)
  with Str show ?thesis by simp
next
  case (Inherited k)
  then show ?thesis by simp
qed

lemma route_unknown:
  assumes "\<not> truthy_value (lookup LOCATION_MAP code)"
  shows "getWeatherByLocation e code fx =
     res_status_json 400
       (JObj [(''error'', JStr err_invalid_code),
              (''message'', JStr (msg_code_prefix @ code @ msg_code_suffix)),
              (''supported_locations'', JArr (map JStr (Object_keys LOCATION_MAP)))]) fx"
  using assms by (simp add: getWeatherByLocation_def Let_def)

lemma route_no_key:
  assumes "truthy_value (lookup LOCATION_MAP code)"
    and "CWA_API_KEY e = None \<or> CWA_API_KEY e = Some []"
  shows "getWeatherByLocation e code fx =
     res_status_json 500 (JObj [(''error'', JStr err_config), (''message'', JStr msg_config)]) fx"
  using assms by (auto simp: getWeatherByLocation_def Let_def)

lemma route_rejected:
  assumes "truthy_value (lookup LOCATION_MAP code)"
    and "CWA_API_KEY e = Some key" and "key \<noteq> []"
    and "axios_get e \<lparr>Authorization = key, locationName_param = lookup LOCATION_MAP code\<rparr>
          = Rejected err"
  shows "getWeatherByLocation e code fx =
     catch_block err
       (fx\<lparr>calls := calls fx
          @ [\<lparr>Authorization = key, locationName_param = lookup LOCATION_MAP code\<rparr>]\<rparr>)"
  using assms by (simp add: getWeatherByLocation_def Let_def)

lemma route_no_location:
  assumes "truthy_value (lookup LOCATION_MAP code)"
    and "CWA_API_KEY e = Some key" and "key \<noteq> []"
    and "axios_get e \<lparr>Authorization = key, locationName_param = lookup LOCATION_MAP code\<rparr>
          = Resolved p"
    and "location p = []"
  shows "getWeatherByLocation e code fx =
     res_status_json 404
       (JObj [(''error'', JStr err_no_data),
              (''message'', JStr (msg_no_data_prefix
                 @ template_of e (lookup LOCATION_MAP code) @ msg_no_data_suffix))])
       (fx\<lparr>calls := calls fx
          @ [\<lparr>Authorization = key, locationName_param = lookup LOCATION_MAP code\<rparr>]\<rparr>)"
  using assms by (simp add: getWeatherByLocation_def Let_def)

lemma route_normalized:
  assumes "truthy_value (lookup LOCATION_MAP code)"
    and "CWA_API_KEY e = Some key" and "key \<noteq> []"
    and "axios_get e \<lparr>Authorization = key, locationName_param = lookup LOCATION_MAP code\<rparr>
          = Resolved p"
    and "location p = loc # locs"
  shows "getWeatherByLocation e code fx =
     (case normalize p loc of
        Inl err \<Rightarrow>
          catch_block err
            (fx\<lparr>calls := calls fx
               @ [\<lparr>Authorization = key, locationName_param = lookup LOCATION_MAP code\<rparr>]\<rparr>)
      | Inr w \<Rightarrow>
          res_json (JObj [(''success'', JBool True), (''data'', weatherData_json w)])
            (fx\<lparr>calls := calls fx
               @ [\<lparr>Authorization = key, locationName_param = lookup LOCATION_MAP code\<rparr>]\<rparr>))"
  using assms by (simp add: getWeatherByLocation_def Let_def)

lemma catch_block_TypeError:
  "catch_block TypeError fx =
     res_status_json 500 (JObj [(''error'', JStr err_server), (''message'', JStr msg_server)]) fx"
  by (simp add: catch_block_def)

lemma catch_block_no_response:
  "catch_block (AxiosError None) fx =
     res_status_json 500 (JObj [(''error'', JStr err_server), (''message'', JStr msg_server)]) fx"
  by (simp add: catch_block_def)

lemma data_message_Inr: "d \<noteq> JNull \<Longrightarrow> \<exists>m. data_message d = Inr m"
  by (cases d) simp_all

lemma catch_block_response:
  assumes "data_message (data r) = Inr m"
  shows "catch_block (AxiosError (Some r)) fx =
     res_status_json (status r)
       (JObj [(''error'', JStr err_cwa),
              (''message'', or_else m (JStr msg_cwa_default)),
              (''details'', data r)]) fx"
  using assms by (simp add: catch_block_def)

lemma catch_block_null:
  assumes "data r = JNull"
  shows "catch_block (AxiosError (Some r)) fx = fx\<lparr>rejected := Some TypeError\<rparr>"
  using assms by (simp add: catch_block_def)

lemma route_forecast_exception:
  assumes "truthy_value (lookup LOCATION_MAP code)"
    and "CWA_API_KEY e = Some key" and "key \<noteq> []"
    and "axios_get e \<lparr>Authorization = key, locationName_param = lookup LOCATION_MAP code\<rparr>
          = Resolved p"
    and "location p = loc # locs"
    and "normalize p loc = Inl TypeError"
  shows "getWeatherByLocation e code fx =
     res_status_json 500 (JObj [(''error'', JStr err_server), (''message'', JStr msg_server)])
       (fx\<lparr>calls := calls fx
          @ [\<lparr>Authorization = key, locationName_param = lookup LOCATION_MAP code\<rparr>]\<rparr>)"
  using route_normalized [OF assms(1-5)] assms(6) by (simp add: catch_block_TypeError)

lemma sent_res_status_json [simp]:
  "sent (res_status_json code b fx) = sent fx @ [\<lparr>statusCode = code, body = b\<rparr>]"
  "calls (res_status_json code b fx) = calls fx"
  "rejected (res_status_json code b fx) = rejected fx"
  by (simp_all add: res_status_json_def)

lemma supported_truthy:
  "code \<in> set (Object_keys LOCATION_MAP) \<Longrightarrow> truthy_value (lookup LOCATION_MAP code)"
  using lookup_supported [of code] by auto

lemma unknown_code_rejected:
  assumes "code \<notin> set (Object_keys LOCATION_MAP)" and "code \<notin> set Object_prototype_names"
  shows "sent (getWeatherByLocation env code fx) = sent fx @
       [\<lparr>statusCode = 400,
         body = JObj [(''error'', JStr err_invalid_code),
                      (''message'', JStr (msg_code_prefix @ code @ msg_code_suffix)),
                      (''supported_locations'', JArr (map JStr (Object_keys LOCATION_MAP)))]\<rparr>]"
proof -
  from assms have "lookup LOCATION_MAP code = Undefined" by (simp add: lookup_Undefined_iff)
  then have "\<not> truthy_value (lookup LOCATION_MAP code)" by simp
  from route_unknown [OF this] show ?thesis by simp
qed

lemma upstream_error_echoed:
  assumes "truthy_value (lookup LOCATION_MAP code)"
    and "CWA_API_KEY env = Some key" and "key \<noteq> []"
    and "axios_get env \<lparr>Authorization = key, locationName_param = lookup LOCATION_MAP code\<rparr>
          = Rejected (AxiosError (Some r))"
    and "data r \<noteq> JNull"
  shows "\<exists>m. sent (getWeatherByLocation env code fx) = sent fx @
       [\<lparr>statusCode = status r,
         body = JObj [(''error'', JStr err_cwa), (''message'', m), (''details'', data r)]\<rparr>]"
proof -
  from data_message_Inr [OF assms(5)] obtain m where "data_message (data r) = Inr m" by blast
  from catch_block_response [OF this] route_rejected [OF assms(1-4)] show ?thesis by simp
qed

lemma transport_error_generic:
  assumes "truthy_value (lookup LOCATION_MAP code)"
    and "CWA_API_KEY env = Some key" and "key \<noteq> []"
    and "axios_get env \<lparr>Authorization = key, locationName_param = lookup LOCATION_MAP code\<rparr>
          = Rejected (AxiosError None)"
  shows "sent (getWeatherByLocation env code fx) = sent fx @
       [\<lparr>statusCode = 500,
         body = JObj [(''error'', JStr err_server), (''message'', JStr msg_server)]\<rparr>]"
  using route_rejected [OF assms] by (simp add: catch_block_no_response)

lemma has_field_JObj [simp]: "has_field k (JObj kvs) = (k \<in> set (map fst kvs))"
  by (simp add: has_field_def)


section \<open>The last element of a tag decides its field\<close>



lemma route_raising_forecast:
  assumes "truthy_value (lookup LOCATION_MAP code)"
    and "CWA_API_KEY env = Some key" and "key \<noteq> []"
    and "axios_get env \<lparr>Authorization = key, locationName_param = lookup LOCATION_MAP code\<rparr>
          = Resolved p"
    and "location p = loc # locs"
    and "normalize p loc = Inl TypeError"
  shows "sent (getWeatherByLocation env code no_effects) =
       [\<lparr>statusCode = 500,
         body = JObj [(''error'', JStr err_server), (''message'', JStr msg_server)]\<rparr>]"
  by (simp add: route_forecast_exception [OF assms] res_status_json_def no_effects_def)

section \<open>Evaluating the samples\<close>

lemmas sample_defs =
  sample_payload_def sample_location_def sample_elements_def entry_def
  short_payload_def short_location_def bare_payload_def bare_location_def
  gap_payload_def gap_location_def empty_payload_def

lemmas eval_defs =
  normalize_def for_loop.simps build_slot_def new_forecast_def apply_element_def degrees_C_def


section \<open>Properties of the forecast\<close>

text \<open>
  C1, as amended. When the first location entry has at least one weather element and no
  read of the callback raises (every element has a time entry at each of the \<open>N\<close> indices of
  element 0, and \<open>Wx\<close>, \<open>CI\<close> and \<open>WS\<close> entries there have their parameter), the forecast is
  built and has exactly \<open>N\<close> slots, \<open>N\<close> the number of time entries of element 0; slot \<open>i\<close>
  has the start and end time of element 0's \<open>i\<close>-th entry, so the slots are in the order of
  the input, none dropped and none merged.
\<close>

theorem normalize_slots:
  assumes "weatherElement loc = e0 # rest" and "aligned (e0 # rest)"
  shows "\<exists>w. normalize p loc = Inr w
       \<and> length (forecasts w) = length (time e0)
       \<and> (\<forall>i<length (time e0).
             forecast.startTime (forecasts w ! i) = time_entry.startTime (time e0 ! i)
           \<and> forecast.endTime (forecasts w ! i) = time_entry.endTime (time e0 ! i))"
proof -
  from normalize_total [OF assms] obtain w where w: "normalize p loc = Inr w" by blast
  from normalize_Inr [OF w] assms(1)
  have len: "length (forecasts w) = length (time e0)"
    and slots: "\<forall>i<length (time e0). build_slot (e0 # rest) e0 i = Inr (forecasts w ! i)"
    by auto
  have "forecast.startTime (forecasts w ! i) = time_entry.startTime (time e0 ! i)
      \<and> forecast.endTime (forecasts w ! i) = time_entry.endTime (time e0 ! i)"
    if "i < length (time e0)" for i
    using slots that build_slot_Inr [of "e0 # rest" e0 i "forecasts w ! i"] by simp
  with w len show ?thesis by blast
qed

theorem normalize_slots_witness:
  "\<exists>w. normalize sample_payload sample_location = Inr w
     \<and> length (forecasts w) = 2
     \<and> map forecast.startTime (forecasts w) = [''06:00'', ''18:00'']
     \<and> map forecast.endTime (forecasts w) = [''18:00'', ''06:00'']"
proof -
  have es: "weatherElement sample_location = hd sample_elements # tl sample_elements"
    by (simp add: sample_defs)
  have al: "aligned (hd sample_elements # tl sample_elements)"
    by (simp add: sample_defs aligned_def readable_def needs_parameter_def)
  from normalize_slots [OF es al, of sample_payload] obtain w
    where w: "normalize sample_payload sample_location = Inr w"
      and len: "length (forecasts w) = length (time (hd sample_elements))"
      and times: "\<forall>i<length (time (hd sample_elements)).
             forecast.startTime (forecasts w ! i) = time_entry.startTime (time (hd sample_elements) ! i)
           \<and> forecast.endTime (forecasts w ! i) = time_entry.endTime (time (hd sample_elements) ! i)"
    by blast
  have n: "length (time (hd sample_elements)) = 2" by (simp add: sample_defs)
  from times n have "forecast.startTime (forecasts w ! 0) = ''06:00''"
    "forecast.startTime (forecasts w ! 1) = ''18:00''"
    "forecast.endTime (forecasts w ! 0) = ''18:00''"
    "forecast.endTime (forecasts w ! 1) = ''06:00''"
    by (simp_all add: sample_defs)
  moreover from len n obtain a b where "forecasts w = [a, b]"
    by (cases "forecasts w"; cases "tl (forecasts w)") auto
  ultimately show ?thesis using w by auto
qed

text \<open>
  The first location entry is present, element 0 has one time entry, and no slot is
  produced: the \<open>Wx\<close> branch reads \<^verbatim>\<open>parameterName\<close> of an absent parameter.
\<close>

theorem normalize_slots_counterexample:
  "location bare_payload = [bare_location]
   \<and> weatherElement bare_location
       = [\<lparr>elementName = ''Wx'', time = [entry ''06:00'' ''18:00'' None]\<rparr>]
   \<and> normalize bare_payload bare_location = Inl TypeError"
  by (simp add: sample_defs eval_defs)





text \<open>
  C4, as amended. When an element other than element 0 has fewer time entries than element 0,
  building the forecast raises a \<^verbatim>\<open>TypeError\<close> (reading \<^verbatim>\<open>.parameter\<close> of the missing
  entry, if nothing raised before); no forecast is produced, and the weather route answers
  once, with status 500 and the generic error body.
\<close>

theorem shorter_element_raises:
  assumes "weatherElement loc = e0 # rest"
    and "e \<in> set rest" and "length (time e) < length (time e0)"
    and "truthy_value (lookup LOCATION_MAP code)"
    and "CWA_API_KEY env = Some key" and "key \<noteq> []"
    and "axios_get env \<lparr>Authorization = key, locationName_param = lookup LOCATION_MAP code\<rparr>
          = Resolved p"
    and "location p = loc # locs"
  shows "normalize p loc = Inl TypeError
       \<and> sent (getWeatherByLocation env code no_effects) =
           [\<lparr>statusCode = 500,
             body = JObj [(''error'', JStr err_server), (''message'', JStr msg_server)]\<rparr>]"
proof -
  from assms(2) have "e \<in> set (e0 # rest)" by simp
  moreover have "\<not> readable (length (time e)) e" by (simp add: readable_def)
  ultimately have "normalize p loc = Inl TypeError"
    using normalize_fails [OF assms(1) assms(3)] by blast
  with route_raising_forecast [OF assms(4-8)] show ?thesis by simp
qed

theorem shorter_element_raises_witness:
  "normalize short_payload short_location = Inl TypeError
   \<and> sent (getWeatherByLocation (env_with (Some ''KEY'') (Resolved short_payload)) ''taipei''
        no_effects) =
       [\<lparr>statusCode = 500,
         body = JObj [(''error'', JStr err_server), (''message'', JStr msg_server)]\<rparr>]"
proof -
  let ?e0 = "hd (weatherElement short_location)" and ?rest = "tl (weatherElement short_location)"
  have 1: "weatherElement short_location = ?e0 # ?rest" by (simp add: sample_defs)
  have 2: "hd ?rest \<in> set ?rest" by (simp add: sample_defs)
  have 3: "length (time (hd ?rest)) < length (time ?e0)" by (simp add: sample_defs)
  have 4: "truthy_value (lookup LOCATION_MAP ''taipei'')"
    by (simp add: lookup_def LOCATION_MAP_def taipei_name_def)
  have 5: "CWA_API_KEY (env_with (Some ''KEY'') (Resolved short_payload)) = Some ''KEY''"
    by (simp add: env_with_def)
  have 6: "''KEY'' \<noteq> []" by simp
  have 7: "axios_get (env_with (Some ''KEY'') (Resolved short_payload))
      \<lparr>Authorization = ''KEY'', locationName_param = lookup LOCATION_MAP ''taipei''\<rparr>
      = Resolved short_payload"
    by (simp add: env_with_def always_def)
  have 8: "location short_payload = short_location # []" by (simp add: sample_defs)
  from shorter_element_raises [OF 1 2 3 4 5 6 7 8] show ?thesis .
qed

text \<open>
  Element 0 has two time entries and the second element one: nothing is left blank, the
  forecast is not built.
\<close>

theorem shorter_element_counterexample:
  "map (\<lambda>element. length (time element)) (weatherElement short_location) = [2, 1]
   \<and> normalize short_payload short_location = Inl TypeError"
  by (simp add: sample_defs eval_defs)

text \<open>
  C9. When an element tagged \<open>Wx\<close>, \<open>CI\<close> or \<open>WS\<close> has, at a slot index \<open>i\<close>, a time entry
  without parameter, building the forecast raises, and the weather route answers with status
  500 and the generic error body; no default is applied.
\<close>

theorem missing_parameter_raises:
  assumes "weatherElement loc = e0 # rest"
    and "e \<in> set (e0 # rest)" and "elementName e \<in> {''Wx'', ''CI'', ''WS''}"
    and "i < length (time e0)" and "i < length (time e)"
    and "parameter (time e ! i) = None"
    and "truthy_value (lookup LOCATION_MAP code)"
    and "CWA_API_KEY env = Some key" and "key \<noteq> []"
    and "axios_get env \<lparr>Authorization = key, locationName_param = lookup LOCATION_MAP code\<rparr>
          = Resolved p"
    and "location p = loc # locs"
  shows "normalize p loc = Inl TypeError
       \<and> sent (getWeatherByLocation env code no_effects) =
           [\<lparr>statusCode = 500,
             body = JObj [(''error'', JStr err_server), (''message'', JStr msg_server)]\<rparr>]"
proof -
  from assms(3,6) have "\<not> readable i e" by (auto simp: readable_def needs_parameter_def)
  with normalize_fails [OF assms(1) assms(4) assms(2)]
  have "normalize p loc = Inl TypeError" by blast
  with route_raising_forecast [OF assms(7-11)] show ?thesis by simp
qed

theorem missing_parameter_raises_witness:
  "normalize gap_payload gap_location = Inl TypeError
   \<and> sent (getWeatherByLocation (env_with (Some ''KEY'') (Resolved gap_payload)) ''miaoli''
        no_effects) =
       [\<lparr>statusCode = 500,
         body = JObj [(''error'', JStr err_server), (''message'', JStr msg_server)]\<rparr>]"
proof -
  let ?e0 = "hd (weatherElement gap_location)" and ?rest = "tl (weatherElement gap_location)"
  have 1: "weatherElement gap_location = ?e0 # ?rest" by (simp add: sample_defs)
  have 2: "hd ?rest \<in> set (?e0 # ?rest)" by (simp add: sample_defs)
  have 3: "elementName (hd ?rest) \<in> {''Wx'', ''CI'', ''WS''}" by (simp add: sample_defs)
  have 4: "1 < length (time ?e0)" and 5: "1 < length (time (hd ?rest))"
    by (simp_all add: sample_defs)
  have 6: "parameter (time (hd ?rest) ! 1) = None" by (simp add: sample_defs)
  have 7: "truthy_value (lookup LOCATION_MAP ''miaoli'')"
    by (simp add: lookup_def LOCATION_MAP_def miaoli_name_def)
  have 8: "CWA_API_KEY (env_with (Some ''KEY'') (Resolved gap_payload)) = Some ''KEY''"
    by (simp add: env_with_def)
  have 9: "''KEY'' \<noteq> []" by simp
  have 10: "axios_get (env_with (Some ''KEY'') (Resolved gap_payload))
      \<lparr>Authorization = ''KEY'', locationName_param = lookup LOCATION_MAP ''miaoli''\<rparr>
      = Resolved gap_payload"
    by (simp add: env_with_def always_def)
  have 11: "location gap_payload = gap_location # []" by (simp add: sample_defs)
  from missing_parameter_raises [OF 1 2 3 4 5 6 7 8 9 10 11] show ?thesis .
qed

section \<open>Properties of the weather route\<close>

text \<open>
  C6. For every location code of the table, when \<^verbatim>\<open>CWA_API_KEY\<close> is absent or the empty
  string, the weather route answers once, with status 500 and a body that has the fields
  \<open>error\<close> and \<open>message\<close>, and makes no outbound call.
\<close>

theorem missing_credential:
  assumes "code \<in> set (Object_keys LOCATION_MAP)"
    and "CWA_API_KEY env = None \<or> CWA_API_KEY env = Some []"
  shows "\<exists>r. sent (getWeatherByLocation env code fx) = sent fx @ [r]
       \<and> statusCode r = 500
       \<and> has_field ''error'' (body r) \<and> has_field ''message'' (body r)
       \<and> calls (getWeatherByLocation env code fx) = calls fx"
  by (simp add: route_no_key [OF supported_truthy [OF assms(1)] assms(2)] has_field_def)

theorem missing_credential_witness:
  "\<exists>r. sent (getWeatherByLocation (env_with None (Resolved sample_payload)) ''kaohsiung''
          no_effects) = [r]
     \<and> statusCode r = 500 \<and> has_field ''error'' (body r) \<and> has_field ''message'' (body r)
     \<and> calls (getWeatherByLocation (env_with None (Resolved sample_payload)) ''kaohsiung''
          no_effects) = []"
proof -
  have 1: "''kaohsiung'' \<in> set (Object_keys LOCATION_MAP)"
    by (simp add: Object_keys_def LOCATION_MAP_def)
  have 2: "CWA_API_KEY (env_with None (Resolved sample_payload)) = None
      \<or> CWA_API_KEY (env_with None (Resolved sample_payload)) = Some []"
    by (simp add: env_with_def)
  from missing_credential [OF 1 2, of no_effects] show ?thesis
    by (simp add: no_effects_def)
qed

text \<open>
  C7. When the upstream call succeeds and the location list of its answer is empty, the
  weather route answers once, with status 404 and a body that has the field \<open>error\<close> and no
  field \<open>data\<close>; the error text is the one of this branch, neither of the two texts the
  \<^verbatim>\<open>catch\<close> block uses for upstream and transport errors.
\<close>

theorem empty_location_list:
  assumes "truthy_value (lookup LOCATION_MAP code)"
    and "CWA_API_KEY env = Some key" and "key \<noteq> []"
    and "axios_get env \<lparr>Authorization = key, locationName_param = lookup LOCATION_MAP code\<rparr>
          = Resolved p"
    and "location p = []"
  shows "\<exists>r. sent (getWeatherByLocation env code fx) = sent fx @ [r]
       \<and> statusCode r = 404
       \<and> has_field ''error'' (body r) \<and> \<not> has_field ''data'' (body r)
       \<and> (\<exists>m. body r = JObj [(''error'', JStr err_no_data), (''message'', JStr m)])
       \<and> err_no_data \<noteq> err_cwa \<and> err_no_data \<noteq> err_server"
  by (simp add: route_no_location [OF assms] has_field_def err_no_data_def err_cwa_def
      err_server_def)

theorem empty_location_list_witness:
  "\<exists>r. sent (getWeatherByLocation (env_with (Some ''KEY'') (Resolved empty_payload)) ''taichung''
          no_effects) = [r]
     \<and> statusCode r = 404 \<and> has_field ''error'' (body r) \<and> \<not> has_field ''data'' (body r)"
proof -
  let ?env = "env_with (Some ''KEY'') (Resolved empty_payload)"
  have 1: "truthy_value (lookup LOCATION_MAP ''taichung'')"
    by (simp add: lookup_def LOCATION_MAP_def taichung_name_def)
  have 2: "CWA_API_KEY ?env = Some ''KEY''" by (simp add: env_with_def)
  have 3: "''KEY'' \<noteq> []" by simp
  have 4: "axios_get ?env
      \<lparr>Authorization = ''KEY'', locationName_param = lookup LOCATION_MAP ''taichung''\<rparr>
      = Resolved empty_payload"
    by (simp add: env_with_def always_def)
  have 5: "location empty_payload = []" by (simp add: empty_payload_def)
  from empty_location_list [OF 1 2 3 4 5, of no_effects] show ?thesis
    by (auto simp: no_effects_def)
qed

text \<open>
  C2, at a code outside the table. \<open>constructor\<close> is not a key of \<^verbatim>\<open>LOCATION_MAP\<close>, yet
  \<^verbatim>\<open>LOCATION_MAP["constructor"]\<close> is the function inherited from \<^verbatim>\<open>Object.prototype\<close>, which is
  truthy: the test of line 40 lets it pass. Without a credential the route answers 500; with
  one, the upstream is called with that function as \<^verbatim>\<open>locationName\<close>. Neither answer is the
  400 with \<open>supported_locations\<close>. For the table's keys and for every code that is neither a
  key nor a name of \<^verbatim>\<open>Object.prototype\<close> the route does what C2 says, see \<open>lookup_supported\<close>
  and \<open>unknown_code_rejected\<close>.
\<close>

theorem inherited_name_passes_check:
  "''constructor'' \<notin> set (Object_keys LOCATION_MAP)
   \<and> lookup LOCATION_MAP ''constructor'' = Inherited ''constructor''
   \<and> getWeatherByLocation (env_with None (Resolved empty_payload)) ''constructor'' no_effects =
       \<lparr>sent = [\<lparr>statusCode = 500,
                 body = JObj [(''error'', JStr err_config), (''message'', JStr msg_config)]\<rparr>],
        calls = [], rejected = None\<rparr>
   \<and> getWeatherByLocation (env_with (Some ''KEY'') (Resolved empty_payload)) ''constructor''
        no_effects =
       \<lparr>sent = [\<lparr>statusCode = 404,
                 body = JObj [(''error'', JStr err_no_data),
                              (''message'', JStr (msg_no_data_prefix
                                 @ ''function Object() { [native code] }''
                                 @ msg_no_data_suffix))]\<rparr>],
        calls = [\<lparr>Authorization = ''KEY'', locationName_param = Inherited ''constructor''\<rparr>],
        rejected = None\<rparr>"
  by (simp add: Object_keys_def LOCATION_MAP_def lookup_def Object_prototype_names_def
      getWeatherByLocation_def env_with_def always_def empty_payload_def no_effects_def
      res_status_json_def template_of_def String_of_V8_def)

text \<open>
  C8, at an upstream error whose body is \<^verbatim>\<open>null\<close>. The \<^verbatim>\<open>catch\<close> block reads
  \<^verbatim>\<open>error.response.data.message\<close>, which raises inside the handler: nothing is sent and the
  handler's promise rejects. For every other body the upstream's status is passed on with
  \<open>error\<close>, \<open>message\<close> and \<open>details\<close>, and an error without response is answered with 500 and
  the generic body, see \<open>upstream_error_echoed\<close> and \<open>transport_error_generic\<close>.
\<close>

theorem null_error_body_not_answered:
  "getWeatherByLocation (env_with (Some ''KEY'') (Rejected (AxiosError (Some unavailable_null))))
       ''taipei'' no_effects =
     \<lparr>sent = [],
      calls = [\<lparr>Authorization = ''KEY'', locationName_param = Str taipei_name\<rparr>],
      rejected = Some TypeError\<rparr>"
  by (simp add: getWeatherByLocation_def env_with_def always_def lookup_def LOCATION_MAP_def
      taipei_name_def catch_block_def unavailable_null_def no_effects_def)

section \<open>Every failure and its answer\<close>




end
